theory Spec2Isabelle
  imports Main "HOL-Library.Word"
begin

unbundle bit_operations_syntax

section \<open>Python exceptions as values\<close>

text \<open>
  Every exception the modelled functions can raise is a value of \<open>error\<close>; a function
  that can raise returns \<open>error + 'a\<close>, with \<open>Inl\<close> for the raise. The strings are the
  messages, without the interpolated parts.
\<close>

datatype error =
    ValueError string
  | IndexError
  | TypeError string
  | NotImplementedError string
  | MemoryError
  | OSError string
  | FFIError
  | OtherException string

section \<open>Secure buffer utilities (\<open>src/pyaegis/util.py\<close>)\<close>

subsection \<open>The memoryview of a buffer\<close>

text \<open>
  Both functions take any object with the buffer protocol, wrap it in
  \<open>memoryview(...)\<close> and check neither its format nor whether it can be written. What
  \<open>n[i]\<close> and \<open>n[i] = v\<close> do depends on the view, so the view carries its kind:
  \<^item> \<open>Unsigned_B\<close>: a one-dimensional view of native format \<open>B\<close> (\<open>bytearray\<close>,
    \<open>bytes\<close>, \<open>array('B')\<close>): an item reads as an \<open>int\<close> in \<open>0..255\<close>;
  \<^item> \<open>Signed_b\<close>: a one-dimensional view of native format \<open>b\<close> (\<open>array('b')\<close>): an item
    reads as an \<open>int\<close> in \<open>-128..127\<close>;
  \<^item> \<open>Unsupported\<close>: a view whose items \<open>memoryview\<close> does not index, such as the
    formats \<open><B\<close> and \<open><c\<close> of ctypes arrays and views of more than one dimension:
    every item access raises \<open>NotImplementedError\<close>.
  A view is read-only (\<open>bytes\<close>) or writable. \<open>bytes\<close> holds the \<open>len(n)\<close> bytes of the
  underlying memory.

  Item access checks in this order: the format (\<open>NotImplementedError\<close>), for a write
  the read-only flag (\<open>TypeError\<close>), the index (\<open>IndexError\<close>), for a write the value
  against the range of the format (\<open>ValueError\<close>).
\<close>

datatype view_format = Unsigned_B | Signed_b | Unsupported

record memoryview =
  format :: view_format
  readonly :: bool
  bytes :: "8 word list"

definition mv_getitem :: "memoryview \<Rightarrow> nat \<Rightarrow> error + int" where
  "mv_getitem n i =
     (if format n = Unsupported then Inl (NotImplementedError ''memoryview: unsupported format'')
      else if \<not> i < length (bytes n) then Inl IndexError
      else Inr (case format n of Signed_b \<Rightarrow> sint (bytes n ! i) | _ \<Rightarrow> uint (bytes n ! i)))"

definition mv_setitem :: "memoryview \<Rightarrow> nat \<Rightarrow> int \<Rightarrow> error + memoryview" where
  "mv_setitem n i v =
     (if format n = Unsupported then Inl (NotImplementedError ''memoryview: unsupported format'')
      else if readonly n then Inl (TypeError ''cannot modify read-only memory'')
      else if \<not> i < length (bytes n) then Inl IndexError
      else if (case format n of Signed_b \<Rightarrow> v < - 128 \<or> 127 < v | _ \<Rightarrow> v < 0 \<or> 255 < v)
        then Inl (ValueError ''memoryview: invalid value for format'')
      else Inr (n\<lparr>bytes := (bytes n)[i := word_of_int v]\<rparr>))"

subsection \<open>\<open>nonce_increment\<close>\<close>

text \<open>
  \<^verbatim>\<open>
  n = memoryview(nonce)
  for i in range(len(n)):
      if n[i] < 255:
          n[i] += 1
          return
      n[i] = 0
  \<close>
  The loop runs over the indices \<open>range(len(n))\<close> produced; \<open>n[i] += 1\<close> reads the item
  again, adds one and stores it. The function returns \<open>None\<close> and mutates the buffer,
  and what it has written stays written when it raises: the model returns the exception
  raised, if any, and the view after the call.
\<close>

fun nonce_increment_loop :: "nat list \<Rightarrow> memoryview \<Rightarrow> error option \<times> memoryview" where
  "nonce_increment_loop [] n = (None, n)"
| "nonce_increment_loop (i # is) n =
     (case mv_getitem n i of
        Inl e \<Rightarrow> (Some e, n)
      | Inr v \<Rightarrow>
          if v < 255 then
            (case mv_getitem n i of
               Inl e \<Rightarrow> (Some e, n)
             | Inr w \<Rightarrow>
                 (case mv_setitem n i (w + 1) of
                    Inl e \<Rightarrow> (Some e, n)
                  | Inr n' \<Rightarrow> (None, n')))
          else
            (case mv_setitem n i 0 of
               Inl e \<Rightarrow> (Some e, n)
             | Inr n' \<Rightarrow> nonce_increment_loop is n'))"

definition nonce_increment :: "memoryview \<Rightarrow> error option \<times> memoryview" where
  "nonce_increment nonce = nonce_increment_loop [0..<length (bytes nonce)] nonce"

subsection \<open>\<open>wipe\<close>\<close>

text \<open>
  \<^verbatim>\<open>
  n = memoryview(buffer)
  for i in range(len(n)):
      n[i] = 0
  \<close>
\<close>

fun wipe_loop :: "nat list \<Rightarrow> memoryview \<Rightarrow> error option \<times> memoryview" where
  "wipe_loop [] n = (None, n)"
| "wipe_loop (i # is) n =
     (case mv_setitem n i 0 of
        Inl e \<Rightarrow> (Some e, n)
      | Inr n' \<Rightarrow> wipe_loop is n')"

definition wipe :: "memoryview \<Rightarrow> error option \<times> memoryview" where
  "wipe buffer = wipe_loop [0..<length (bytes buffer)] buffer"

subsection \<open>Reading bytes as a little-endian number\<close>

text \<open>The value of a byte list as a little-endian unsigned integer: byte \<open>i\<close> weighs \<open>256 ^ i\<close>.\<close>

fun le_value :: "8 word list \<Rightarrow> nat" where
  "le_value [] = 0"
| "le_value (b # bs) = unat b + 256 * le_value bs"

text \<open>
  The successor of a byte list, written directly on the list: the leading run of \<open>0xFF\<close>
  bytes becomes zero and the byte after it, if any, grows by one. It is the reference
  the loop is compared with.
\<close>

fun le_succ :: "8 word list \<Rightarrow> 8 word list" where
  "le_succ [] = []"
| "le_succ (b # bs) = (if b = 255 then 0 # le_succ bs else (b + 1) # bs)"

subsection \<open>Views of concrete Python objects\<close>

text \<open>
  The views \<open>memoryview\<close> gives for a \<open>bytearray\<close>, an \<open>array('b')\<close>, a ctypes array
  \<open>(c_ubyte * k)(...)\<close> and a \<open>bytes\<close> object holding the given bytes.
\<close>

definition bytearray :: "8 word list \<Rightarrow> memoryview" where
  "bytearray bs = \<lparr>format = Unsigned_B, readonly = False, bytes = bs\<rparr>"

definition array_b :: "8 word list \<Rightarrow> memoryview" where
  "array_b bs = \<lparr>format = Signed_b, readonly = False, bytes = bs\<rparr>"

definition ctypes_ubyte_array :: "8 word list \<Rightarrow> memoryview" where
  "ctypes_ubyte_array bs = \<lparr>format = Unsupported, readonly = False, bytes = bs\<rparr>"

definition bytes_object :: "8 word list \<Rightarrow> memoryview" where
  "bytes_object bs = \<lparr>format = Unsigned_B, readonly = True, bytes = bs\<rparr>"

section \<open>Aligned allocation in Python-owned memory (\<open>src/pyaegis/util.py\<close>)\<close>

subsection \<open>The part of cffi the allocator uses\<close>

text \<open>
  cffi is a library outside the repository, so what it does is a parameter. A cdata
  object is either an owning array (what \<open>ffi.new("unsigned char[]", n)\<close> returns: item
  type, address of the first byte, number of bytes) or a pointer that owns nothing (what
  \<open>ffi.addressof\<close> and \<open>ffi.cast\<close> return: pointed-to type and address). Addresses are the
  integers \<open>int(ffi.cast("uintptr_t", p))\<close> reads.

  The record \<open>ffi\<close> holds the two things the platform decides: the size of a C type
  (\<open>None\<close> when \<open>ffi.sizeof\<close> does not know the type) and the address the allocator
  gives to a new array of \<open>n\<close> bytes (\<open>None\<close> when memory is exhausted).
\<close>

datatype cdata =
    CArray (cd_type: string) (cd_addr: int) (cd_len: int)
  | CPointer (cd_type: string) (cd_addr: int)

record ffi =
  ffi_sizeof :: "string \<Rightarrow> nat option"
  ffi_alloc :: "int \<Rightarrow> int option"

text \<open>\<open>ffi.new("unsigned char[]", n)\<close>: a negative length raises \<open>ValueError\<close>.\<close>

definition ffi_new_uchar_array :: "ffi \<Rightarrow> int \<Rightarrow> error + cdata" where
  "ffi_new_uchar_array F n =
     (if n < 0 then Inl (ValueError ''negative array length'')
      else case ffi_alloc F n of
             None \<Rightarrow> Inl MemoryError
           | Some a \<Rightarrow> Inr (CArray ''unsigned char'' a n))"

text \<open>
  \<open>ffi.addressof(obj, index)\<close> on an array of \<open>unsigned char\<close>: the address of item
  \<open>index\<close>, with no bounds check (items are one byte wide). \<open>ffi.cast\<close> keeps the address
  and changes the type.
\<close>

definition ffi_addressof :: "cdata \<Rightarrow> int \<Rightarrow> cdata" where
  "ffi_addressof obj index = CPointer (cd_type obj) (cd_addr obj + index)"

definition ffi_cast :: "string \<Rightarrow> cdata \<Rightarrow> cdata" where
  "ffi_cast ctype obj = CPointer ctype (cd_addr obj)"

subsection \<open>\<open>aligned_address\<close> and \<open>new_aligned_struct\<close>\<close>

text \<open>
  \<^verbatim>\<open>
  def aligned_address(obj) -> int:
      return int(ffi.cast("uintptr_t", ffi.addressof(obj, 0)))
  \<close>
\<close>

definition aligned_address :: "cdata \<Rightarrow> int" where
  "aligned_address obj = cd_addr (ffi_cast ''uintptr_t'' (ffi_addressof obj 0))"

text \<open>
  \<^verbatim>\<open>
  if alignment & (alignment - 1):  # Not power of two
      raise ValueError("alignment must be a power of two")
  size = ffi.sizeof(ctype)
  base = ffi.new("unsigned char[]", size + alignment - 1)
  addr = aligned_address(base)
  offset = (-addr) & (alignment - 1)
  aligned_uc = ffi.addressof(base, offset)
  ptr = ffi.cast(f"{ctype} *", aligned_uc)
  return ptr, base
  \<close>
  \<open>alignment\<close> is a Python \<open>int\<close>, so \<open>&\<close> is the bitwise and of unbounded integers.
  (The source's \<open>size\<close> is \<open>sz\<close> here.)
\<close>

definition new_aligned_struct :: "ffi \<Rightarrow> string \<Rightarrow> int \<Rightarrow> error + cdata \<times> cdata" where
  "new_aligned_struct F ctype alignment =
     (if alignment AND (alignment - 1) \<noteq> 0 then Inl (ValueError ''alignment must be a power of two'')
      else case ffi_sizeof F ctype of
        None \<Rightarrow> Inl FFIError
      | Some sz \<Rightarrow>
          (case ffi_new_uchar_array F (int sz + alignment - 1) of
             Inl e \<Rightarrow> Inl e
           | Inr base \<Rightarrow>
               let addr = aligned_address base;
                   offset = (- addr) AND (alignment - 1);
                   aligned_uc = ffi_addressof base offset;
                   ptr = ffi_cast (ctype @ '' *'') aligned_uc
               in Inr (ptr, base)))"

text \<open>
  A concrete platform for examples: \<open>aegis128l_state\<close> is 256 bytes and the allocator
  hands out the odd address 4099.
\<close>

definition example_ffi :: ffi where
  "example_ffi = \<lparr> ffi_sizeof = (\<lambda>c. if c = ''aegis128l_state'' then Some 256 else None),
                   ffi_alloc = (\<lambda>n. Some 4099) \<rparr>"

section \<open>The loaders (\<open>src/pyaegis/_loader.py\<close> and \<open>src/aegis/_loader.py\<close>)\<close>

subsection \<open>The host and the effects of a run\<close>

text \<open>
  Everything the loaders ask of the process they run in is a field of \<open>host\<close>: the
  platform names, the environment variables, which paths exist, how paths are joined,
  where the module file and the repository root are, whether reading and declaring
  \<open>build/aegis_cdef.h\<close> fails (\<open>pyaegis\<close> only), whether \<open>ctypes.util\<close> could be imported
  and what \<open>find_library("c")\<close> answers, what \<open>ffi.dlopen\<close> does for a name (\<open>None\<close> is
  \<open>ffi.dlopen(None)\<close>), what calling \<open>lib.aegis_init()\<close> does (it returns a status or
  raises), and what the C function \<open>posix_memalign(memptr, alignment, size)\<close> does: its
  return code and the pointer it stores through \<open>memptr\<close>, if it stores one.

  Besides its result every function returns the list of foreign calls it made, in
  order, so that "called once" and "not retried" are statements about that list.
\<close>

datatype library = Library string

datatype event = Dlopen "string option" | AegisInit | PosixMemalign int int

record host =
  sys_platform :: string
  os_name :: string
  environ :: "string \<Rightarrow> string option"
  path_exists :: "string \<Rightarrow> bool"
  path_join :: "string \<Rightarrow> string \<Rightarrow> string"
  pkg_dir :: string
  repo_root :: string
  cdef_error :: "error option"
  ctypes_util :: bool
  find_library_c :: "string option"
  dlopen :: "string option \<Rightarrow> error + library"
  aegis_init :: "library \<Rightarrow> error + int"
  posix_memalign :: "library \<Rightarrow> int \<Rightarrow> int \<Rightarrow> int \<times> int option"

text \<open>The module globals \<open>lib\<close> and \<open>libc\<close> that an import leaves behind.\<close>

record module =
  lib :: library
  libc :: library

subsection \<open>\<open>pyaegis._loader\<close>: the bundled library\<close>

text \<open>
  \<^verbatim>\<open>
  def _platform_lib_name() -> str:
      if sys.platform == "darwin":
          return "libaegis.dylib"
      if os.name == "nt":
          return "aegis.dll"
      return "libaegis.so"

  def _load_libaegis():
      pkg_dir = os.path.dirname(__file__)
      candidate = os.path.join(pkg_dir, "build", _platform_lib_name())
      if os.path.exists(candidate):
          try:
              return ffi.dlopen(candidate)
          except Exception as e:
              raise OSError(f"Failed to load libaegis from {candidate}: {e}")
      else:
          raise OSError(f"Could not find libaegis at {candidate}")
  \<close>
\<close>

definition pyaegis_platform_lib_name :: "host \<Rightarrow> string" where
  "pyaegis_platform_lib_name H =
     (if sys_platform H = ''darwin'' then ''libaegis.dylib''
      else if os_name H = ''nt'' then ''aegis.dll''
      else ''libaegis.so'')"

definition pyaegis_load_libaegis :: "host \<Rightarrow> (error + library) \<times> event list" where
  "pyaegis_load_libaegis H =
     (let candidate = path_join H (path_join H (pkg_dir H) ''build'') (pyaegis_platform_lib_name H)
      in if path_exists H candidate then
           (case dlopen H (Some candidate) of
              Inr l \<Rightarrow> (Inr l, [Dlopen (Some candidate)])
            | Inl e \<Rightarrow> (Inl (OSError ''Failed to load libaegis''), [Dlopen (Some candidate)]))
         else (Inl (OSError ''Could not find libaegis''), []))"

subsection \<open>\<open>aegis._loader\<close>: a list of candidates\<close>

text \<open>
  \<^verbatim>\<open>
  def _platform_lib_name() -> str:
      if sys.platform.startswith("linux"):
          return "libaegis.so"
      if sys.platform == "darwin":
          return "libaegis.dylib"
      if os.name == "nt":
          return "aegis.dll"
      return "libaegis.so"
  \<close>
\<close>

definition startswith :: "string \<Rightarrow> string \<Rightarrow> bool" where
  "startswith s p = (take (length p) s = p)"

definition aegis_platform_lib_name :: "host \<Rightarrow> string" where
  "aegis_platform_lib_name H =
     (if startswith (sys_platform H) ''linux'' then ''libaegis.so''
      else if sys_platform H = ''darwin'' then ''libaegis.dylib''
      else if os_name H = ''nt'' then ''aegis.dll''
      else ''libaegis.so'')"

text \<open>
  \<^verbatim>\<open>
  def _candidate_paths() -> Iterable[str]:
      p = os.environ.get("AEGIS_LIB_PATH")
      if p:
          yield p
      d = os.environ.get("AEGIS_LIB_DIR")
      if d:
          yield str(Path(d) / _platform_lib_name())
      here = Path(__file__).resolve()
      repo_root = here.parents[2]
      for rel in ("build-shared-clang/libaegis.so", "build-shared/libaegis.so",
                  "build/libaegis.so", "zig-out/lib/libaegis.so"):
          path = repo_root / rel
          if path.exists():
              yield str(path)
      yield _platform_lib_name()
  \<close>
  The generator is the list of the values it yields, in order. \<open>if p:\<close> is false for a
  variable that is not set and for one set to the empty string.
\<close>

definition local_builds :: "string list" where
  "local_builds =
     [''build-shared-clang/libaegis.so'', ''build-shared/libaegis.so'',
      ''build/libaegis.so'', ''zig-out/lib/libaegis.so'']"

definition candidate_paths :: "host \<Rightarrow> string list" where
  "candidate_paths H =
     (case environ H ''AEGIS_LIB_PATH'' of
        Some p \<Rightarrow> if p \<noteq> [] then [p] else []
      | None \<Rightarrow> [])
     @ (case environ H ''AEGIS_LIB_DIR'' of
          Some d \<Rightarrow> if d \<noteq> [] then [path_join H d (aegis_platform_lib_name H)] else []
        | None \<Rightarrow> [])
     @ filter (path_exists H) (map (path_join H (repo_root H)) local_builds)
     @ [aegis_platform_lib_name H]"

text \<open>
  \<^verbatim>\<open>
  def _load_libaegis():
      last_err = None
      for cand in _candidate_paths():
          try:
              lib = ffi.dlopen(str(cand))
              return lib
          except Exception as e:  # try next candidate
              last_err = e
              continue
      raise OSError(f"Could not load libaegis: {last_err} ...")
  \<close>
  \<open>last_err\<close> only feeds the message, which is cut to its fixed part.
\<close>

fun try_candidates :: "host \<Rightarrow> string list \<Rightarrow> (error + library) \<times> event list" where
  "try_candidates H [] = (Inl (OSError ''Could not load libaegis''), [])"
| "try_candidates H (cand # cands) =
     (case dlopen H (Some cand) of
        Inr l \<Rightarrow> (Inr l, [Dlopen (Some cand)])
      | Inl e \<Rightarrow>
          (case try_candidates H cands of
             (r, evs) \<Rightarrow> (r, Dlopen (Some cand) # evs)))"

definition aegis_load_libaegis :: "host \<Rightarrow> (error + library) \<times> event list" where
  "aegis_load_libaegis H = try_candidates H (candidate_paths H)"

subsection \<open>What both loaders share: libc, the import, \<open>alloc_aligned\<close>\<close>

text \<open>
  \<^verbatim>\<open>
  def _load_libc():
      if _ctypes_util is not None:
          libc_name = _ctypes_util.find_library("c")
          if libc_name:
              try:
                  return ffi.dlopen(libc_name)
              except Exception:
                  pass
      try:
          return ffi.dlopen(None)
      except Exception as e:
          raise OSError(f"Unable to load libc for aligned allocation: {e}")
  \<close>
  \<open>dlopen_process\<close> is the last \<open>try\<close>.
\<close>

definition dlopen_process :: "host \<Rightarrow> (error + library) \<times> event list" where
  "dlopen_process H =
     (case dlopen H None of
        Inr l \<Rightarrow> (Inr l, [Dlopen None])
      | Inl e \<Rightarrow> (Inl (OSError ''Unable to load libc for aligned allocation''), [Dlopen None]))"

definition load_libc :: "host \<Rightarrow> (error + library) \<times> event list" where
  "load_libc H =
     (if ctypes_util H then
        (case find_library_c H of
           None \<Rightarrow> dlopen_process H
         | Some libc_name \<Rightarrow>
             if libc_name \<noteq> [] then
               (case dlopen H (Some libc_name) of
                  Inr l \<Rightarrow> (Inr l, [Dlopen (Some libc_name)])
                | Inl e \<Rightarrow>
                    (case dlopen_process H of
                       (r, evs) \<Rightarrow> (r, Dlopen (Some libc_name) # evs)))
             else dlopen_process H)
      else dlopen_process H)"

text \<open>
  The statements a module runs when it is imported, after the library is chosen:
  \<^verbatim>\<open>
  lib: Any = _load_libaegis()
  libc: Any = _load_libc()
  try:
      lib.aegis_init()
  except Exception:
      pass
  \<close>
  An exception of \<open>_load_libaegis\<close> or \<open>_load_libc\<close> ends the import; one of
  \<open>aegis_init\<close> is swallowed. \<open>pyaegis._loader\<close> reads and declares the cdef file first.
\<close>

definition init_and_finish :: "host \<Rightarrow> library \<Rightarrow> library \<Rightarrow> (error + module) \<times> event list" where
  "init_and_finish H l c =
     (case aegis_init H l of
        Inr rc \<Rightarrow> (Inr \<lparr>lib = l, libc = c\<rparr>, [AegisInit])
      | Inl e \<Rightarrow> (Inr \<lparr>lib = l, libc = c\<rparr>, [AegisInit]))"

definition load_libs :: "host \<Rightarrow> (error + library) \<times> event list \<Rightarrow> (error + module) \<times> event list" where
  "load_libs H loaded =
     (case loaded of
        (Inl e, ev1) \<Rightarrow> (Inl e, ev1)
      | (Inr l, ev1) \<Rightarrow>
          (case load_libc H of
             (Inl e, ev2) \<Rightarrow> (Inl e, ev1 @ ev2)
           | (Inr c, ev2) \<Rightarrow>
               (case init_and_finish H l c of
                  (r, ev3) \<Rightarrow> (r, ev1 @ ev2 @ ev3))))"

definition pyaegis_import :: "host \<Rightarrow> (error + module) \<times> event list" where
  "pyaegis_import H =
     (case cdef_error H of
        Some e \<Rightarrow> (Inl e, [])
      | None \<Rightarrow> load_libs H (pyaegis_load_libaegis H))"

definition aegis_import :: "host \<Rightarrow> (error + module) \<times> event list" where
  "aegis_import H = load_libs H (aegis_load_libaegis H)"

text \<open>
  \<^verbatim>\<open>
  def alloc_aligned(size: int, alignment: int = 64):
      memptr = ffi.new("void **")
      rc = libc.posix_memalign(memptr, alignment, size)
      if rc != 0 or memptr[0] == ffi.NULL:
          raise MemoryError(f"posix_memalign({alignment}, {size}) failed with rc={rc}")
      return memptr[0]
  \<close>
  The same text in both loaders. \<open>ffi.new("void **")\<close> is a zeroed cell, so \<open>memptr[0]\<close>
  is \<open>NULL\<close> until the C function stores through it. The function uses the module
  global \<open>libc\<close>, so the model takes the imported module. (The source's \<open>size\<close> is
  \<open>sz\<close> here.)
\<close>

definition NULL :: int where
  "NULL = 0"

definition alloc_aligned :: "host \<Rightarrow> module \<Rightarrow> int \<Rightarrow> int \<Rightarrow> (error + int) \<times> event list" where
  "alloc_aligned H M sz alignment =
     (let memptr = NULL in
      case posix_memalign H (libc M) alignment sz of
        (rc, stored) \<Rightarrow>
          let memptr = (case stored of None \<Rightarrow> memptr | Some p \<Rightarrow> p)
          in (if rc \<noteq> 0 \<or> memptr = NULL then Inl MemoryError else Inr memptr,
              [PosixMemalign alignment sz]))"

subsection \<open>The candidate order as the specification words it\<close>

text \<open>
  The specification's reading of the loader, for comparison with the code: the value of
  \<open>AEGIS_LIB_PATH\<close> whenever the variable is set, then \<open>AEGIS_LIB_DIR\<close> joined with the
  library name whenever set, then the existing local builds, then the bare name; the
  result is the first candidate that loads.
\<close>

definition claimed_candidate_paths :: "host \<Rightarrow> string list" where
  "claimed_candidate_paths H =
     (case environ H ''AEGIS_LIB_PATH'' of Some p \<Rightarrow> [p] | None \<Rightarrow> [])
     @ (case environ H ''AEGIS_LIB_DIR'' of
          Some d \<Rightarrow> [path_join H d (aegis_platform_lib_name H)]
        | None \<Rightarrow> [])
     @ filter (path_exists H) (map (path_join H (repo_root H)) local_builds)
     @ [aegis_platform_lib_name H]"

definition claimed_load_libaegis :: "host \<Rightarrow> error + library" where
  "claimed_load_libaegis H =
     (case find (\<lambda>c. \<not> isl (dlopen H (Some c))) (claimed_candidate_paths H) of
        None \<Rightarrow> Inl (OSError ''Could not load libaegis'')
      | Some c \<Rightarrow> dlopen H (Some c))"

subsection \<open>Concrete hosts\<close>

text \<open>
  A Linux host with \<open>AEGIS_LIB_DIR=/opt/aegis\<close> (holding no library), a local build and
  a bundled library, whose \<open>aegis_init\<close> raises and whose \<open>posix_memalign\<close> serves
  requests up to 4096 bytes.
\<close>

definition example_host :: host where
  "example_host =
     \<lparr> sys_platform = ''linux'', os_name = ''posix'',
       environ = (\<lambda>v. if v = ''AEGIS_LIB_DIR'' then Some ''/opt/aegis'' else None),
       path_exists = (\<lambda>p. p = ''/repo/build/libaegis.so'' \<or> p = ''/site/pyaegis/build/libaegis.so''),
       path_join = (\<lambda>a b. a @ ''/'' @ b),
       pkg_dir = ''/site/pyaegis'', repo_root = ''/repo'',
       cdef_error = None, ctypes_util = True, find_library_c = Some ''libc.so.6'',
       dlopen = (\<lambda>n. if n = Some ''/repo/build/libaegis.so'' then Inr (Library ''local build'')
                     else if n = Some ''/site/pyaegis/build/libaegis.so'' then Inr (Library ''bundled'')
                     else if n = Some ''libc.so.6'' then Inr (Library ''libc'')
                     else Inl (OSError ''cannot open shared object file'')),
       aegis_init = (\<lambda>l. Inl (OtherException ''aegis_init failed'')),
       posix_memalign = (\<lambda>l a n. if n \<le> 4096 then (0, Some 8192) else (12, None)) \<rparr>"

text \<open>The same host with \<open>AEGIS_LIB_PATH\<close> set to the empty string and no loadable library.\<close>

definition empty_path_host :: host where
  "empty_path_host =
     example_host \<lparr> environ := (\<lambda>v. if v = ''AEGIS_LIB_PATH'' then Some [] else None),
                    dlopen := (\<lambda>n. Inl (OSError ''cannot open shared object file'')) \<rparr>"

text \<open>
  A host with no bundled library, where \<open>AEGIS_LIB_PATH\<close> names a library that loads.
\<close>

definition unbundled_host :: host where
  "unbundled_host =
     example_host \<lparr> environ := (\<lambda>v. if v = ''AEGIS_LIB_PATH'' then Some ''/opt/libaegis.so'' else None),
                    path_exists := (\<lambda>p. p = ''/opt/libaegis.so''),
                    dlopen := (\<lambda>n. if n = Some ''/opt/libaegis.so'' then Inr (Library ''override'')
                                   else Inl (OSError ''cannot open shared object file'')) \<rparr>"

section \<open>Properties of the buffer utilities\<close>

lemma unat_byte_bound: "unat (b :: 8 word) < 256"
  using unsigned_less [of b, where 'a = nat] by simp

lemma unat_255: "unat (255 :: 8 word) = 255"
  by (simp add: unat_numeral)

lemma byte_eq_255: "(b :: 8 word) = 255 \<longleftrightarrow> unat b = 255"
  by (simp add: word_unat_eq_iff unat_255)

lemma byte_lt_255: "uint (b :: 8 word) < 255 \<longleftrightarrow> b \<noteq> 255"
proof -
  have "uint b = int (unat b)" by simp
  moreover have "unat b < 256" by (rule unat_byte_bound)
  ultimately show ?thesis unfolding byte_eq_255 by linarith
qed

lemma unat_byte_succ: "(a :: 8 word) \<noteq> 255 \<Longrightarrow> unat (a + 1) = unat a + 1"
proof -
  assume "a \<noteq> 255"
  then have "unat a < 255" using unat_byte_bound [of a] byte_eq_255 [of a] by linarith
  then show ?thesis by (simp add: unat_word_ariths)
qed

lemma sint_byte_range: "- 128 \<le> sint (b :: 8 word) \<and> sint b < 128"
  using sint_ge [of b] sint_lt [of b] by simp

lemma sint_byte_127: "sint (b :: 8 word) = 127 \<longleftrightarrow> b = 127"
proof
  assume "sint b = 127"
  then have "word_of_int (sint b) = (word_of_int 127 :: 8 word)" by simp
  then show "b = 127" by simp
next
  assume "b = 127"
  then show "sint b = 127" by simp
qed

lemma upt_from_length: "[length pre..<length pre + length (b # bs)] =
      length pre # [length (pre @ [z])..<length (pre @ [z]) + length bs]"
  by (subst upt_rec) (simp del: upt_Suc)

lemma nonce_increment_loop_run:
  "format n = Unsigned_B \<Longrightarrow> \<not> readonly n \<Longrightarrow> bytes n = pre @ suf \<Longrightarrow>
   nonce_increment_loop [length pre..<length pre + length suf] n = (None, n\<lparr>bytes := pre @ le_succ suf\<rparr>)"
proof (induction suf arbitrary: pre n)
  case Nil
  then show ?case by simp
next
  case (Cons b bs)
  show ?case
  proof (cases "b = 255")
    case True
    let ?n' = "n\<lparr>bytes := (pre @ [0]) @ bs\<rparr>"
    have "nonce_increment_loop [length (pre @ [0])..<length (pre @ [0]) + length bs] ?n'
        = (None, ?n'\<lparr>bytes := (pre @ [0]) @ le_succ bs\<rparr>)"
      using Cons.prems by (intro Cons.IH) simp_all
    then show ?thesis
      unfolding upt_from_length [where z = 0] using True Cons.prems
      by (simp add: mv_getitem_def mv_setitem_def nth_append list_update_append del: upt_Suc)
  next
    case False
    then have lt: "uint b < 255" by (simp add: byte_lt_255)
    then have "word_of_int (uint b + 1) = b + 1" by simp
    moreover have "\<not> uint b + 1 < 0" using uint_ge_0 [of b] by linarith
    ultimately show ?thesis
      unfolding upt_from_length [where z = 0] using False lt Cons.prems
      by (simp add: mv_getitem_def mv_setitem_def nth_append list_update_append del: upt_Suc)
  qed
qed

lemma nonce_increment_unsigned:
  "format n = Unsigned_B \<Longrightarrow> \<not> readonly n \<Longrightarrow> nonce_increment n = (None, n\<lparr>bytes := le_succ (bytes n)\<rparr>)"
  using nonce_increment_loop_run [of n "[]" "bytes n"] by (simp add: nonce_increment_def)

lemma nonce_increment_empty: "bytes n = [] \<Longrightarrow> nonce_increment n = (None, n)"
  by (simp add: nonce_increment_def)

lemma upt_0_Cons: "[0..<Suc m] = 0 # [Suc 0..<Suc m]"
  by (rule upt_conv_Cons) simp

lemma nonce_increment_unsupported:
  "format n = Unsupported \<Longrightarrow> bytes n = b # bs \<Longrightarrow>
   nonce_increment n = (Some (NotImplementedError ''memoryview: unsupported format''), n)"
  by (simp add: nonce_increment_def upt_0_Cons mv_getitem_def del: upt_Suc)

lemma nonce_increment_readonly:
  "format n \<noteq> Unsupported \<Longrightarrow> readonly n \<Longrightarrow> bytes n = b # bs \<Longrightarrow>
   nonce_increment n = (Some (TypeError ''cannot modify read-only memory''), n)"
  by (simp add: nonce_increment_def upt_0_Cons mv_getitem_def mv_setitem_def del: upt_Suc)

lemma nonce_increment_signed:
  "format n = Signed_b \<Longrightarrow> \<not> readonly n \<Longrightarrow> bytes n = b # bs \<Longrightarrow>
   nonce_increment n =
     (if b = 127 then (Some (ValueError ''memoryview: invalid value for format''), n)
      else (None, n\<lparr>bytes := (b + 1) # bs\<rparr>))"
proof -
  assume a: "format n = Signed_b" "\<not> readonly n" "bytes n = b # bs"
  have r: "- 128 \<le> sint b \<and> sint b < 128" by (rule sint_byte_range)
  then have lt: "sint b < 255" by linarith
  have w: "word_of_int (sint b + 1) = b + 1" by simp
  have lo: "\<not> sint b + 1 < - 128" using r by linarith
  have hi: "127 < sint b + 1 \<longleftrightarrow> b = 127" using r sint_byte_127 [of b] by linarith
  show ?thesis
    using a lt w lo hi
    by (simp add: nonce_increment_def upt_0_Cons mv_getitem_def mv_setitem_def del: upt_Suc)
qed

lemma length_le_succ: "length (le_succ b) = length b"
  by (induction b) auto

lemma le_value_bound: "le_value b < 256 ^ length b"
proof (induction b)
  case Nil
  then show ?case by simp
next
  case (Cons a b)
  have "unat a < 256" by (rule unat_byte_bound)
  with Cons show ?case by simp
qed

lemma le_value_succ: "le_value (le_succ b) = (le_value b + 1) mod 256 ^ length b"
proof (induction b)
  case Nil
  then show ?case by simp
next
  case (Cons a b)
  show ?case
  proof (cases "a = 255")
    case True
    then have ua: "unat a = 255" by (simp add: byte_eq_255)
    have l: "le_value (a # b) + 1 = 256 * (le_value b + 1)" using ua by simp
    have r: "le_value (le_succ (a # b)) = 256 * le_value (le_succ b)" using True by simp
    have "256 * (le_value b + 1) mod (256 * 256 ^ length b) = 256 * ((le_value b + 1) mod 256 ^ length b)"
      by (rule mult_mod_right [symmetric])
    then show ?thesis unfolding l r Cons.IH by simp
  next
    case False
    then have u: "unat (a + 1) = unat a + 1" by (rule unat_byte_succ)
    have "unat a < 255" using False unat_byte_bound [of a] byte_eq_255 [of a] by linarith
    moreover have "le_value b + 1 \<le> 256 ^ length b" using le_value_bound [of b] by simp
    then have "256 * (le_value b + 1) \<le> 256 * 256 ^ length b" by (rule mult_le_mono2)
    ultimately have "le_value (a # b) + 1 < 256 ^ length (a # b)" by simp
    then show ?thesis using False u by simp
  qed
qed

lemma wipe_loop_run:
  "format n \<noteq> Unsupported \<Longrightarrow> \<not> readonly n \<Longrightarrow> bytes n = pre @ suf \<Longrightarrow>
   wipe_loop [length pre..<length pre + length suf] n = (None, n\<lparr>bytes := pre @ replicate (length suf) 0\<rparr>)"
proof (induction suf arbitrary: pre n)
  case Nil
  then show ?case by simp
next
  case (Cons b bs)
  let ?n' = "n\<lparr>bytes := (pre @ [0]) @ bs\<rparr>"
  have "wipe_loop [length (pre @ [0])..<length (pre @ [0]) + length bs] ?n'
        = (None, ?n'\<lparr>bytes := (pre @ [0]) @ replicate (length bs) 0\<rparr>)"
    using Cons.prems by (intro Cons.IH) simp_all
  then show ?case
    unfolding upt_from_length [where z = 0] using Cons.prems
    by (cases "format n") (simp_all add: mv_setitem_def list_update_append del: upt_Suc)
qed

lemma wipe_supported:
  "format n \<noteq> Unsupported \<Longrightarrow> \<not> readonly n \<Longrightarrow>
   wipe n = (None, n\<lparr>bytes := replicate (length (bytes n)) 0\<rparr>)"
  using wipe_loop_run [of n "[]" "bytes n"] by (simp add: wipe_def)

lemma wipe_empty: "bytes n = [] \<Longrightarrow> wipe n = (None, n)"
  by (simp add: wipe_def)

lemma wipe_unsupported:
  "format n = Unsupported \<Longrightarrow> bytes n = b # bs \<Longrightarrow>
   wipe n = (Some (NotImplementedError ''memoryview: unsupported format''), n)"
  by (simp add: wipe_def upt_0_Cons mv_setitem_def del: upt_Suc)

lemma wipe_readonly:
  "format n \<noteq> Unsupported \<Longrightarrow> readonly n \<Longrightarrow> bytes n = b # bs \<Longrightarrow>
   wipe n = (Some (TypeError ''cannot modify read-only memory''), n)"
  by (simp add: wipe_def upt_0_Cons mv_setitem_def del: upt_Suc)

lemma le_succ_nth_above:
  "length (takeWhile (\<lambda>x. x = 255) b) < j \<Longrightarrow> j < length b \<Longrightarrow> le_succ b ! j = b ! j"
proof (induction b arbitrary: j)
  case Nil
  then show ?case by simp
next
  case (Cons x xs)
  show ?case
  proof (cases "x = 255")
    case True
    with Cons.prems obtain j' where j: "j = Suc j'" by (cases j) auto
    with True Cons.prems have "length (takeWhile (\<lambda>x. x = 255) xs) < j'" "j' < length xs" by auto
    then have "le_succ xs ! j' = xs ! j'" by (rule Cons.IH)
    with True j show ?thesis by simp
  next
    case False
    with Cons.prems obtain j' where j: "j = Suc j'" by (cases j) auto
    with False show ?thesis by simp
  qed
qed

text \<open>
  What a call leaves behind, whatever the view: the view unchanged, its successor, or
  only byte 0 incremented.
\<close>

lemma nonce_increment_after:
  "snd (nonce_increment n) = n
   \<or> (format n = Unsigned_B \<and> \<not> readonly n \<and> snd (nonce_increment n) = n\<lparr>bytes := le_succ (bytes n)\<rparr>)
   \<or> (\<exists>b bs. bytes n = b # bs \<and> snd (nonce_increment n) = n\<lparr>bytes := (b + 1) # bs\<rparr>)"
proof (cases "bytes n")
  case Nil
  then show ?thesis by (simp add: nonce_increment_empty)
next
  case (Cons b bs)
  show ?thesis
  proof (cases "format n")
    case Unsupported
    with Cons show ?thesis by (simp add: nonce_increment_unsupported)
  next
    case Unsigned_B
    show ?thesis
    proof (cases "readonly n")
      case True
      with Unsigned_B Cons show ?thesis by (simp add: nonce_increment_readonly)
    next
      case False
      with Unsigned_B show ?thesis by (simp add: nonce_increment_unsigned)
    qed
  next
    case Signed_b
    show ?thesis
    proof (cases "readonly n")
      case True
      with Signed_b Cons show ?thesis by (simp add: nonce_increment_readonly)
    next
      case False
      with Signed_b Cons show ?thesis by (simp add: nonce_increment_signed)
    qed
  qed
qed

lemma nonce_increment_frame_all:
  "format (snd (nonce_increment n)) = format n \<and> readonly (snd (nonce_increment n)) = readonly n
   \<and> length (bytes (snd (nonce_increment n))) = length (bytes n)
   \<and> (\<forall>j. length (takeWhile (\<lambda>x. x = 255) (bytes n)) < j \<and> j < length (bytes n)
          \<longrightarrow> bytes (snd (nonce_increment n)) ! j = bytes n ! j)"
proof -
  consider (same) "snd (nonce_increment n) = n"
    | (succ) "snd (nonce_increment n) = n\<lparr>bytes := le_succ (bytes n)\<rparr>"
    | (first) b bs where "bytes n = b # bs" "snd (nonce_increment n) = n\<lparr>bytes := (b + 1) # bs\<rparr>"
    using nonce_increment_after [of n] by blast
  then show ?thesis
  proof cases
    case same
    then show ?thesis by simp
  next
    case succ
    then show ?thesis by (simp add: length_le_succ le_succ_nth_above)
  next
    case first
    then show ?thesis by (auto simp: nth_Cons split: nat.splits)
  qed
qed


lemma nonce_increment_no_index_error: "fst (nonce_increment n) \<noteq> Some IndexError"
proof (cases "bytes n")
  case Nil
  then show ?thesis by (simp add: nonce_increment_empty)
next
  case (Cons b bs)
  show ?thesis
  proof (cases "format n = Unsupported")
    case True
    with Cons show ?thesis by (simp add: nonce_increment_unsupported)
  next
    case False
    show ?thesis
    proof (cases "readonly n")
      case True
      with False Cons show ?thesis by (simp add: nonce_increment_readonly)
    next
      case w: False
      with False Cons show ?thesis
        by (cases "format n") (simp_all add: nonce_increment_unsigned nonce_increment_signed)
    qed
  qed
qed

lemma wipe_no_index_error: "fst (wipe n) \<noteq> Some IndexError"
proof (cases "bytes n")
  case Nil
  then show ?thesis by (simp add: wipe_empty)
next
  case (Cons b bs)
  show ?thesis
  proof (cases "format n = Unsupported")
    case True
    with Cons show ?thesis by (simp add: wipe_unsupported)
  next
    case False
    with Cons show ?thesis
      by (cases "readonly n") (simp_all add: wipe_readonly wipe_supported)
  qed
qed

lemma wipe_length: "length (bytes (snd (wipe n))) = length (bytes n)"
proof (cases "bytes n")
  case Nil
  then show ?thesis by (simp add: wipe_empty)
next
  case (Cons b bs)
  show ?thesis
  proof (cases "format n = Unsupported")
    case True
    with Cons show ?thesis by (simp add: wipe_unsupported)
  next
    case False
    with Cons show ?thesis
      by (cases "readonly n") (simp_all add: wipe_readonly wipe_supported)
  qed
qed

text \<open>
  Claim C1, as amended. On every writable one-dimensional view of unsigned bytes (format
  \<open>B\<close>) \<open>nonce_increment\<close> returns normally, keeps the length, and the little-endian
  value of the bytes afterwards is the old value plus one modulo \<open>256 ^ n\<close> for \<open>n\<close>
  bytes. In particular the bytearray \<open>FF FF\<close> becomes \<open>00 00\<close> and \<open>01 00\<close> becomes
  \<open>02 00\<close>.
\<close>

theorem nonce_increment_little_endian:
  "(format n = Unsigned_B \<and> \<not> readonly n \<longrightarrow>
      (\<exists>n'. nonce_increment n = (None, n') \<and> format n' = format n \<and> readonly n' = readonly n
            \<and> length (bytes n') = length (bytes n)
            \<and> le_value (bytes n') = (le_value (bytes n) + 1) mod 256 ^ length (bytes n)))
   \<and> nonce_increment (bytearray [255, 255]) = (None, bytearray [0, 0])
   \<and> nonce_increment (bytearray [1, 0]) = (None, bytearray [2, 0])"
proof -
  have g: "format n = Unsigned_B \<and> \<not> readonly n \<longrightarrow>
      (\<exists>n'. nonce_increment n = (None, n') \<and> format n' = format n \<and> readonly n' = readonly n
            \<and> length (bytes n') = length (bytes n)
            \<and> le_value (bytes n') = (le_value (bytes n) + 1) mod 256 ^ length (bytes n))"
    by (simp add: nonce_increment_unsigned length_le_succ le_value_succ)
  have a: "nonce_increment (bytearray [255, 255]) = (None, bytearray [0, 0])"
    by (simp add: nonce_increment_unsigned bytearray_def)
  have b: "nonce_increment (bytearray [1, 0]) = (None, bytearray [2, 0])"
    by (simp add: nonce_increment_unsigned bytearray_def)
  from g a b show ?thesis by (intro conjI)
qed

text \<open>
  At the bytearray \<open>FF 03\<close>: the carry reaches byte 1 and the value goes from 1023 to
  1024.
\<close>

theorem nonce_increment_little_endian_witness:
  "format (bytearray [255, 3]) = Unsigned_B \<and> \<not> readonly (bytearray [255, 3])
   \<and> nonce_increment (bytearray [255, 3]) = (None, bytearray [0, 4])
   \<and> le_value [0, 4] = (le_value [255, 3] + 1) mod 256 ^ 2"
proof -
  have h: "format (bytearray [255, 3]) = Unsigned_B \<and> \<not> readonly (bytearray [255, 3])"
    by (simp add: bytearray_def)
  from nonce_increment_little_endian [of "bytearray [255, 3]"] h
  obtain n' where n': "nonce_increment (bytearray [255, 3]) = (None, n')"
    and v: "le_value (bytes n') = (le_value (bytes (bytearray [255, 3])) + 1) mod 256 ^ length (bytes (bytearray [255, 3]))"
    by blast
  have e: "nonce_increment (bytearray [255, 3]) = (None, bytearray [0, 4])"
    by (simp add: nonce_increment_unsigned bytearray_def)
  with n' have "n' = bytearray [0, 4]" by simp
  with v have "le_value [0, 4] = (le_value [255, 3] + 1) mod 256 ^ 2"
    by (simp add: bytearray_def)
  with h e show ?thesis by simp
qed

text \<open>
  Claim C1 as stated, for every byte buffer, fails. On an \<open>array('b')\<close> holding
  \<open>FF 00\<close> byte 0 reads as \<open>-1\<close>, is incremented to 0 and the call returns: the bytes
  are \<open>00 00\<close>, value 0 and not 256, the carry is lost. On a ctypes array the first
  \<open>n[i]\<close> raises \<open>NotImplementedError\<close>, on a \<open>bytes\<close> object the first store raises
  \<open>TypeError\<close>, and the bytes stay as they were.
\<close>

theorem nonce_increment_little_endian_counterexample:
  "nonce_increment (array_b [255, 0]) = (None, array_b [0, 0])
   \<and> le_value [0, 0] \<noteq> (le_value [255, 0] + 1) mod 256 ^ 2
   \<and> nonce_increment (ctypes_ubyte_array [1, 0])
       = (Some (NotImplementedError ''memoryview: unsupported format''), ctypes_ubyte_array [1, 0])
   \<and> nonce_increment (bytes_object [1, 0])
       = (Some (TypeError ''cannot modify read-only memory''), bytes_object [1, 0])"
proof (intro conjI)
  show "nonce_increment (array_b [255, 0]) = (None, array_b [0, 0])"
    by (simp add: nonce_increment_signed array_b_def)
  show "le_value [0, 0] \<noteq> (le_value [255, 0] + 1) mod 256 ^ 2"
    by (simp add: unat_255)
  show "nonce_increment (ctypes_ubyte_array [1, 0])
       = (Some (NotImplementedError ''memoryview: unsupported format''), ctypes_ubyte_array [1, 0])"
    by (simp add: nonce_increment_unsupported ctypes_ubyte_array_def)
  show "nonce_increment (bytes_object [1, 0])
       = (Some (TypeError ''cannot modify read-only memory''), bytes_object [1, 0])"
    by (simp add: nonce_increment_readonly bytes_object_def)
qed

text \<open>
  Claim C2, as amended. On every writable one-dimensional view of format \<open>B\<close> or \<open>b\<close>,
  of any length including zero, \<open>wipe\<close> returns normally and leaves every byte zero,
  with the length kept; wiping the wiped buffer again does the same and changes
  nothing. A buffer of length zero, of whatever kind, is left as it is without an
  exception.
\<close>

theorem wipe_all_zero:
  "(format n \<noteq> Unsupported \<and> \<not> readonly n \<longrightarrow>
      wipe n = (None, n\<lparr>bytes := replicate (length (bytes n)) 0\<rparr>)
      \<and> wipe (snd (wipe n)) = wipe n)
   \<and> (bytes n = [] \<longrightarrow> wipe n = (None, n))"
  by (simp add: wipe_supported wipe_empty)

text \<open>
  A bytearray and an \<open>array('b')\<close> are wiped, a wiped bytearray stays wiped, and an
  empty ctypes array is accepted.
\<close>

theorem wipe_all_zero_witness:
  "format (bytearray [1, 2, 255]) \<noteq> Unsupported \<and> \<not> readonly (bytearray [1, 2, 255])
   \<and> wipe (bytearray [1, 2, 255]) = (None, bytearray [0, 0, 0])
   \<and> wipe (bytearray [0, 0, 0]) = (None, bytearray [0, 0, 0])
   \<and> wipe (array_b [255, 127]) = (None, array_b [0, 0])
   \<and> bytes (ctypes_ubyte_array []) = []
   \<and> wipe (ctypes_ubyte_array []) = (None, ctypes_ubyte_array [])"
  using wipe_all_zero [of "bytearray [1, 2, 255]"] wipe_all_zero [of "array_b [255, 127]"]
    wipe_all_zero [of "ctypes_ubyte_array []"] wipe_all_zero [of "bytearray [0, 0, 0]"]
  by (simp add: bytearray_def array_b_def ctypes_ubyte_array_def)

text \<open>
  Claim C2 as stated, for every byte buffer, fails: on the ctypes array \<open>01 02\<close> the
  first store raises \<open>NotImplementedError\<close>, on the \<open>bytes\<close> object \<open>01 02\<close> it raises
  \<open>TypeError\<close>, and in both the bytes are still \<open>01 02\<close> afterwards.
\<close>

theorem wipe_all_zero_counterexample:
  "wipe (ctypes_ubyte_array [1, 2])
     = (Some (NotImplementedError ''memoryview: unsupported format''), ctypes_ubyte_array [1, 2])
   \<and> wipe (bytes_object [1, 2])
       = (Some (TypeError ''cannot modify read-only memory''), bytes_object [1, 2])"
  by (simp add: wipe_unsupported wipe_readonly ctypes_ubyte_array_def bytes_object_def)

text \<open>
  Claim C9. Let \<open>k\<close> be the length of the leading run of \<open>0xFF\<close> bytes, that is the
  index of the first byte below 255 when there is one. On every view, whatever its
  format and whether or not the call raises, \<open>nonce_increment\<close> keeps the length and
  leaves every byte at an index above \<open>k\<close> as it was; on a writable view of unsigned
  bytes it returns normally.
\<close>

theorem nonce_increment_frame:
  "(format n = Unsigned_B \<and> \<not> readonly n \<longrightarrow> fst (nonce_increment n) = None)
   \<and> format (snd (nonce_increment n)) = format n \<and> readonly (snd (nonce_increment n)) = readonly n
   \<and> length (bytes (snd (nonce_increment n))) = length (bytes n)
   \<and> (\<forall>j. length (takeWhile (\<lambda>x. x = 255) (bytes n)) < j \<and> j < length (bytes n)
          \<longrightarrow> bytes (snd (nonce_increment n)) ! j = bytes n ! j)"
  using nonce_increment_frame_all [of n] by (simp add: nonce_increment_unsigned)

text \<open>
  The frame property at the bytearray \<open>FF 07 FF 09\<close>: bytes 2 and 3 are untouched.
\<close>

theorem nonce_increment_frame_witness:
  "nonce_increment (bytearray [255, 7, 255, 9]) = (None, bytearray [0, 8, 255, 9])
   \<and> length (takeWhile (\<lambda>x. x = 255) [255, 7, 255, 9 :: 8 word]) = 1
   \<and> [0, 8, 255, 9 :: 8 word] ! 2 = [255, 7, 255, 9] ! 2
   \<and> [0, 8, 255, 9 :: 8 word] ! 3 = [255, 7, 255, 9] ! 3"
proof -
  have v: "nonce_increment (bytearray [255, 7, 255, 9]) = (None, bytearray [0, 8, 255, 9])"
    by (simp add: nonce_increment_unsigned bytearray_def)
  have k: "length (takeWhile (\<lambda>x. x = 255) [255, 7, 255, 9 :: 8 word]) = 1" by simp
  from nonce_increment_frame [of "bytearray [255, 7, 255, 9]"]
  have fr: "\<forall>j. length (takeWhile (\<lambda>x. x = 255) (bytes (bytearray [255, 7, 255, 9]))) < j
          \<and> j < length (bytes (bytearray [255, 7, 255, 9]))
          \<longrightarrow> bytes (snd (nonce_increment (bytearray [255, 7, 255, 9]))) ! j = bytes (bytearray [255, 7, 255, 9]) ! j"
    by (elim conjE)
  then have "\<forall>j. 1 < j \<and> j < 4 \<longrightarrow> [0, 8, 255, 9 :: 8 word] ! j = [255, 7, 255, 9] ! j"
    unfolding v by (simp add: bytearray_def)
  then have "[0, 8, 255, 9 :: 8 word] ! 2 = [255, 7, 255, 9] ! 2" "[0, 8, 255, 9 :: 8 word] ! 3 = [255, 7, 255, 9] ! 3"
    by simp_all
  with v k show ?thesis by simp
qed

text \<open>
  Claim C10, as amended. Both functions are total, so they terminate on every view. On
  every writable one-dimensional view of unsigned bytes (format \<open>B\<close>) neither raises:
  no item access is out of bounds and no value stored is outside \<open>0..255\<close>. \<open>wipe\<close>
  raises nothing on a writable view of format \<open>b\<close> either. On no view at all does
  either function raise \<open>IndexError\<close>, and both keep the length.
\<close>

theorem loops_raise_nothing:
  "(format n = Unsigned_B \<and> \<not> readonly n \<longrightarrow>
      fst (nonce_increment n) = None \<and> fst (wipe n) = None)
   \<and> (format n = Signed_b \<and> \<not> readonly n \<longrightarrow> fst (wipe n) = None)
   \<and> fst (nonce_increment n) \<noteq> Some IndexError
   \<and> fst (wipe n) \<noteq> Some IndexError
   \<and> length (bytes (snd (nonce_increment n))) = length (bytes n)
   \<and> length (bytes (snd (wipe n))) = length (bytes n)"
  using nonce_increment_frame_all [of n]
  by (simp add: nonce_increment_unsigned wipe_supported nonce_increment_no_index_error
      wipe_no_index_error wipe_length)

text \<open>
  The bytearray \<open>FF FF FF\<close> passes through both functions, and the \<open>array('b')\<close>
  holding \<open>7F\<close> through \<open>wipe\<close>, without an exception.
\<close>

theorem loops_raise_nothing_witness:
  "format (bytearray [255, 255, 255]) = Unsigned_B \<and> \<not> readonly (bytearray [255, 255, 255])
   \<and> fst (nonce_increment (bytearray [255, 255, 255])) = None
   \<and> fst (wipe (bytearray [255, 255, 255])) = None
   \<and> format (array_b [127]) = Signed_b \<and> \<not> readonly (array_b [127])
   \<and> fst (wipe (array_b [127])) = None"
  using loops_raise_nothing [of "bytearray [255, 255, 255]"] loops_raise_nothing [of "array_b [127]"]
  by (simp add: bytearray_def array_b_def)

text \<open>
  Claim C10 as stated, for every writable byte buffer, fails: on the writable
  \<open>array('b')\<close> holding \<open>7F\<close> \<open>nonce_increment\<close> stores 128 and raises \<open>ValueError\<close>,
  and on a writable ctypes array both functions raise \<open>NotImplementedError\<close>.
\<close>

theorem loops_raise_nothing_counterexample:
  "\<not> readonly (array_b [127])
   \<and> nonce_increment (array_b [127])
       = (Some (ValueError ''memoryview: invalid value for format''), array_b [127])
   \<and> \<not> readonly (ctypes_ubyte_array [1, 2])
   \<and> nonce_increment (ctypes_ubyte_array [1, 2])
       = (Some (NotImplementedError ''memoryview: unsupported format''), ctypes_ubyte_array [1, 2])
   \<and> wipe (ctypes_ubyte_array [1, 2])
       = (Some (NotImplementedError ''memoryview: unsupported format''), ctypes_ubyte_array [1, 2])"
  by (simp add: nonce_increment_signed nonce_increment_unsupported wipe_unsupported
      array_b_def ctypes_ubyte_array_def)

section \<open>Properties of the aligned allocation\<close>

lemma pow2_and_pred: "(2 ^ k :: int) AND (2 ^ k - 1) = 0"
proof -
  have "(2 ^ k :: int) AND mask k = take_bit k (2 ^ k)" by (simp add: take_bit_eq_mask)
  then show ?thesis by (simp add: mask_eq_exp_minus_1)
qed

lemma and_pred_pow2: "(x :: int) AND (2 ^ k - 1) = x mod 2 ^ k"
  by (simp add: take_bit_eq_mask [symmetric] mask_eq_exp_minus_1 [symmetric] take_bit_eq_mod)

lemma neg_and_pred: "(a :: int) < 0 \<Longrightarrow> a AND (a - 1) \<noteq> 0"
proof -
  assume "a < 0"
  then have "a AND (a - 1) < 0" by simp
  then show ?thesis by linarith
qed

lemma and_pred_zero_pos: "0 < (a :: int) \<Longrightarrow> a AND (a - 1) = 0 \<Longrightarrow> \<exists>k. a = 2 ^ k"
proof (induction "nat a" arbitrary: a rule: less_induct)
  case less
  have rec: "a AND (a - 1) = of_bool (odd a \<and> odd (a - 1)) + 2 * ((a div 2) AND ((a - 1) div 2))"
    by (rule and_int_rec)
  show ?case
  proof (cases "even a")
    case True
    then obtain b where b: "a = 2 * b" by (elim evenE)
    with less.prems have bpos: "0 < b" by simp
    have "(a - 1) div 2 = b - 1" using b by presburger
    moreover have "a div 2 = b" using b by simp
    ultimately have "a AND (a - 1) = 2 * (b AND (b - 1))" using rec True by simp
    with less.prems have "b AND (b - 1) = 0" by simp
    moreover have "nat b < nat a" using b bpos by simp
    ultimately obtain k where "b = 2 ^ k" using less.hyps [of b] bpos by blast
    with b have "a = 2 ^ Suc k" by simp
    then show ?thesis by blast
  next
    case False
    then obtain b where b: "a = 2 * b + 1" by (elim oddE)
    have "(a - 1) div 2 = b" "a div 2 = b" using b by simp_all
    then have "a AND (a - 1) = 2 * b" using rec False by simp
    with less.prems have "b = 0" by simp
    with b have "a = 2 ^ 0" by simp
    then show ?thesis by blast
  qed
qed

lemma alignment_guard_iff:
  "(alignment AND (alignment - 1) = 0) \<longleftrightarrow> alignment = 0 \<or> (\<exists>k. alignment = 2 ^ k)" for alignment :: int
proof
  assume z: "alignment AND (alignment - 1) = 0"
  show "alignment = 0 \<or> (\<exists>k. alignment = 2 ^ k)"
  proof (cases "alignment \<le> 0")
    case True
    with z neg_and_pred [of alignment] show ?thesis by fastforce
  next
    case False
    with z and_pred_zero_pos [of alignment] show ?thesis by simp
  qed
next
  assume "alignment = 0 \<or> (\<exists>k. alignment = 2 ^ k)"
  then show "alignment AND (alignment - 1) = 0"
    by (auto simp: pow2_and_pred)
qed

lemma aligned_sum: "((addr :: int) + (- addr) mod 2 ^ k) mod 2 ^ k = 0"
  by (simp add: mod_add_right_eq)


lemma new_aligned_struct_pow2:
  assumes "ffi_sizeof F ctype = Some s" and "ffi_alloc F (int s + 2 ^ k - 1) = Some a"
  shows "new_aligned_struct F ctype (2 ^ k) =
           Inr (CPointer (ctype @ '' *'') (a + (- a) mod 2 ^ k),
                CArray ''unsigned char'' a (int s + 2 ^ k - 1))"
proof -
  have "(0 :: int) < 2 ^ k" by simp
  then have "\<not> int s + 2 ^ k - 1 < 0" by linarith
  then show ?thesis
    using assms
    by (simp add: new_aligned_struct_def pow2_and_pred ffi_new_uchar_array_def aligned_address_def
        ffi_addressof_def ffi_cast_def and_pred_pow2 Let_def)
qed

lemma new_aligned_struct_success:
  assumes "new_aligned_struct F ctype alignment = Inr (ptr, base)"
  obtains s a where "ffi_sizeof F ctype = Some s" and "ffi_alloc F (int s + alignment - 1) = Some a"
    and "0 \<le> int s + alignment - 1"
  using assms
  by (auto simp: new_aligned_struct_def ffi_new_uchar_array_def split: if_splits option.splits sum.splits)

text \<open>
  Claim C3. For every C type and every alignment \<open>2 ^ k\<close>, when \<open>new_aligned_struct\<close>
  returns, the address of the pointer it returns is a multiple of the alignment.
\<close>

theorem new_aligned_struct_address_aligned:
  "new_aligned_struct F ctype (2 ^ k) = Inr (ptr, base) \<Longrightarrow> cd_addr ptr mod 2 ^ k = 0"
proof -
  assume ok: "new_aligned_struct F ctype (2 ^ k) = Inr (ptr, base)"
  then obtain s a where "ffi_sizeof F ctype = Some s" "ffi_alloc F (int s + 2 ^ k - 1) = Some a"
    by (rule new_aligned_struct_success)
  then have "new_aligned_struct F ctype (2 ^ k) =
      Inr (CPointer (ctype @ '' *'') (a + (- a) mod 2 ^ k), CArray ''unsigned char'' a (int s + 2 ^ k - 1))"
    by (rule new_aligned_struct_pow2)
  with ok have "cd_addr ptr = a + (- a) mod 2 ^ k" by auto
  then show ?thesis by (simp add: aligned_sum)
qed

text \<open>
  On the example platform, alignment 64: the array starts at 4099 and the pointer is
  4160, a multiple of 64.
\<close>

theorem new_aligned_struct_address_aligned_witness:
  "new_aligned_struct example_ffi ''aegis128l_state'' (2 ^ 6) =
     Inr (CPointer ''aegis128l_state *'' 4160, CArray ''unsigned char'' 4099 319)
   \<and> cd_addr (CPointer ''aegis128l_state *'' 4160) mod 2 ^ 6 = 0"
proof -
  have v: "new_aligned_struct example_ffi ''aegis128l_state'' (2 ^ 6) =
     Inr (CPointer ''aegis128l_state *'' 4160, CArray ''unsigned char'' 4099 319)"
    using new_aligned_struct_pow2 [of example_ffi "''aegis128l_state''" 256 6 4099]
    by (simp add: example_ffi_def)
  from new_aligned_struct_address_aligned [OF v] v show ?thesis by simp
qed

text \<open>
  Claim C4. The guard \<open>alignment & (alignment - 1)\<close> raises its \<open>ValueError\<close> exactly
  for the alignments that are neither zero nor a power of two. Zero, which is no power
  of two, passes: on the example platform \<open>new_aligned_struct("aegis128l_state", 0)\<close>
  allocates 255 bytes and returns a pointer whose address is 0.
\<close>

theorem new_aligned_struct_guard:
  "(new_aligned_struct F ctype alignment = Inl (ValueError ''alignment must be a power of two'')
      \<longleftrightarrow> alignment \<noteq> 0 \<and> (\<forall>k. alignment \<noteq> 2 ^ k))
   \<and> new_aligned_struct example_ffi ''aegis128l_state'' 0 =
       Inr (CPointer ''aegis128l_state *'' 0, CArray ''unsigned char'' 4099 255)"
proof
  show "new_aligned_struct F ctype alignment = Inl (ValueError ''alignment must be a power of two'')
      \<longleftrightarrow> alignment \<noteq> 0 \<and> (\<forall>k. alignment \<noteq> 2 ^ k)"
    using alignment_guard_iff [of alignment]
    by (auto simp: new_aligned_struct_def ffi_new_uchar_array_def Let_def split: option.splits sum.splits)
  show "new_aligned_struct example_ffi ''aegis128l_state'' 0 =
       Inr (CPointer ''aegis128l_state *'' 0, CArray ''unsigned char'' 4099 255)"
    by (simp add: new_aligned_struct_def example_ffi_def ffi_new_uchar_array_def aligned_address_def
        ffi_addressof_def ffi_cast_def Let_def)
qed

text \<open>
  Claim C5. For an alignment \<open>2 ^ k\<close> and a C type of \<open>s\<close> bytes, a call that returns
  \<open>(ptr, base)\<close> has allocated \<open>base\<close> with \<open>ffi.new\<close> as an array of exactly
  \<open>s + 2 ^ k - 1\<close> bytes; the offset of \<open>ptr\<close> in \<open>base\<close> is at least 0 and below
  \<open>2 ^ k\<close>, and the \<open>s\<close> bytes from \<open>ptr\<close> end inside \<open>base\<close>. The owner returned is
  that array, not the pointer into it.
\<close>

theorem new_aligned_struct_region:
  "new_aligned_struct F ctype (2 ^ k) = Inr (ptr, base) \<Longrightarrow>
   \<exists>s. ffi_sizeof F ctype = Some s \<and>
       ffi_new_uchar_array F (int s + 2 ^ k - 1) = Inr base \<and>
       cd_len base = int s + 2 ^ k - 1 \<and>
       0 \<le> cd_addr ptr - cd_addr base \<and>
       cd_addr ptr - cd_addr base < 2 ^ k \<and>
       cd_addr ptr - cd_addr base + int s \<le> cd_len base \<and>
       base \<noteq> ptr"
proof -
  assume ok: "new_aligned_struct F ctype (2 ^ k) = Inr (ptr, base)"
  then obtain s a where s: "ffi_sizeof F ctype = Some s" and a: "ffi_alloc F (int s + 2 ^ k - 1) = Some a"
    and nn: "0 \<le> int s + 2 ^ k - 1"
    by (rule new_aligned_struct_success)
  from s a have "new_aligned_struct F ctype (2 ^ k) =
      Inr (CPointer (ctype @ '' *'') (a + (- a) mod 2 ^ k), CArray ''unsigned char'' a (int s + 2 ^ k - 1))"
    by (rule new_aligned_struct_pow2)
  with ok have ptr: "ptr = CPointer (ctype @ '' *'') (a + (- a) mod 2 ^ k)"
    and base: "base = CArray ''unsigned char'' a (int s + 2 ^ k - 1)" by auto
  have lo: "0 \<le> (- a) mod (2 ^ k :: int)" by simp
  have hi: "(- a) mod (2 ^ k :: int) < 2 ^ k" by simp
  have new: "ffi_new_uchar_array F (int s + 2 ^ k - 1) = Inr base"
    using a nn base by (simp add: ffi_new_uchar_array_def)
  show ?thesis
    using s new lo hi by (intro exI [of _ s]) (simp add: ptr base)
qed

text \<open>
  On the example platform, alignment 64: 319 bytes at 4099, offset 61, and
  \<open>61 + 256 \<le> 319\<close>.
\<close>

theorem new_aligned_struct_region_witness:
  "new_aligned_struct example_ffi ''aegis128l_state'' (2 ^ 6) =
     Inr (CPointer ''aegis128l_state *'' 4160, CArray ''unsigned char'' 4099 319)
   \<and> ffi_sizeof example_ffi ''aegis128l_state'' = Some 256
   \<and> ffi_new_uchar_array example_ffi (256 + 2 ^ 6 - 1) = Inr (CArray ''unsigned char'' 4099 319)
   \<and> (4160 :: int) - 4099 < 2 ^ 6 \<and> (4160 :: int) - 4099 + 256 \<le> 319"
proof -
  have v: "new_aligned_struct example_ffi ''aegis128l_state'' (2 ^ 6) =
     Inr (CPointer ''aegis128l_state *'' 4160, CArray ''unsigned char'' 4099 319)"
    using new_aligned_struct_pow2 [of example_ffi "''aegis128l_state''" 256 6 4099]
    by (simp add: example_ffi_def)
  from new_aligned_struct_region [OF v] v show ?thesis
    by (simp add: example_ffi_def ffi_new_uchar_array_def)
qed

section \<open>Properties of the loaders\<close>

lemma try_candidates_find:
  "try_candidates H cs =
     (case find (\<lambda>c. \<not> isl (dlopen H (Some c))) cs of
        None \<Rightarrow> (Inl (OSError ''Could not load libaegis''), map (Dlopen \<circ> Some) cs)
      | Some c \<Rightarrow> (dlopen H (Some c),
                   map (Dlopen \<circ> Some) (takeWhile (\<lambda>c. isl (dlopen H (Some c))) cs @ [c])))"
  by (induction cs) (auto split: sum.splits option.splits)







lemma load_libs_result:
  "fst (load_libs H loaded) =
     (case fst loaded of
        Inl e \<Rightarrow> Inl e
      | Inr l \<Rightarrow> (case fst (load_libc H) of
                   Inl e \<Rightarrow> Inl e
                 | Inr c \<Rightarrow> Inr \<lparr>lib = l, libc = c\<rparr>))"
  by (cases loaded; cases "load_libc H")
     (auto simp: load_libs_def init_and_finish_def split: sum.splits)














lemma alloc_aligned_events: "snd (alloc_aligned H M sz alignment) = [PosixMemalign alignment sz]"
  by (simp add: alloc_aligned_def Let_def split: prod.splits)

text \<open>
  Claim C6. Let \<open>posix_memalign\<close> return \<open>rc\<close> and store \<open>stored\<close>. \<open>alloc_aligned\<close>
  raises \<open>MemoryError\<close> exactly when \<open>rc\<close> is not zero or the cell holds \<open>NULL\<close> (nothing
  was stored, or \<open>NULL\<close> was); otherwise it returns the pointer stored. In both cases
  \<open>posix_memalign\<close> was called once, with the arguments given: there is no retry.
\<close>

theorem alloc_aligned_memory_error:
  "posix_memalign H (libc M) alignment sz = (rc, stored) \<Longrightarrow>
     (fst (alloc_aligned H M sz alignment) = Inl MemoryError
        \<longleftrightarrow> rc \<noteq> 0 \<or> stored = None \<or> stored = Some NULL)
     \<and> (\<forall>p. rc = 0 \<and> stored = Some p \<and> p \<noteq> NULL
            \<longrightarrow> fst (alloc_aligned H M sz alignment) = Inr p)
     \<and> snd (alloc_aligned H M sz alignment) = [PosixMemalign alignment sz]"
  by (auto simp: alloc_aligned_def Let_def split: option.splits)

text \<open>
  On the example host: 256 bytes are served at 8192; 5000 bytes fail with code 12 and
  \<open>MemoryError\<close>, after one call.
\<close>

theorem alloc_aligned_memory_error_witness:
  "posix_memalign example_host (Library ''libc'') 64 256 = (0, Some 8192)
   \<and> alloc_aligned example_host \<lparr>lib = Library ''bundled'', libc = Library ''libc''\<rparr> 256 64
       = (Inr 8192, [PosixMemalign 64 256])
   \<and> posix_memalign example_host (Library ''libc'') 64 5000 = (12, None)
   \<and> alloc_aligned example_host \<lparr>lib = Library ''bundled'', libc = Library ''libc''\<rparr> 5000 64
       = (Inl MemoryError, [PosixMemalign 64 5000])"
proof -
  let ?M = "\<lparr>lib = Library ''bundled'', libc = Library ''libc''\<rparr>"
  have ok: "posix_memalign example_host (libc ?M) 64 256 = (0, Some 8192)"
    by (simp add: example_host_def)
  have bad: "posix_memalign example_host (libc ?M) 64 5000 = (12, None)"
    by (simp add: example_host_def)
  from alloc_aligned_memory_error [OF ok] alloc_aligned_memory_error [OF bad]
  have "alloc_aligned example_host ?M 256 64 = (Inr 8192, [PosixMemalign 64 256])"
    and "alloc_aligned example_host ?M 5000 64 = (Inl MemoryError, [PosixMemalign 64 5000])"
    by (simp_all add: NULL_def prod_eq_iff)
  with ok bad show ?thesis by simp
qed




lemma aegis_load_libaegis_result:
  "fst (aegis_load_libaegis H) =
     (case find (\<lambda>c. \<not> isl (dlopen H (Some c))) (candidate_paths H) of
        None \<Rightarrow> Inl (OSError ''Could not load libaegis'')
      | Some c \<Rightarrow> dlopen H (Some c))"
  by (simp add: aegis_load_libaegis_def try_candidates_find split: option.splits)

lemma aegis_load_libaegis_attempts:
  "snd (aegis_load_libaegis H) =
     map (Dlopen \<circ> Some)
       (takeWhile (\<lambda>c. isl (dlopen H (Some c))) (candidate_paths H)
        @ (case find (\<lambda>c. \<not> isl (dlopen H (Some c))) (candidate_paths H) of
             None \<Rightarrow> [] | Some c \<Rightarrow> [c]))"
proof (cases "find (\<lambda>c. \<not> isl (dlopen H (Some c))) (candidate_paths H)")
  case None
  then have "\<forall>c \<in> set (candidate_paths H). isl (dlopen H (Some c))"
    by (simp add: find_None_iff)
  then have tw: "takeWhile (\<lambda>c. isl (dlopen H (Some c))) (candidate_paths H) = candidate_paths H"
    by (simp add: takeWhile_eq_all_conv)
  show ?thesis
    unfolding tw using None by (simp add: aegis_load_libaegis_def try_candidates_find)
next
  case (Some c)
  then show ?thesis by (simp add: aegis_load_libaegis_def try_candidates_find)
qed

lemma aegis_load_libaegis_failure:
  "isl (fst (aegis_load_libaegis H)) \<longrightarrow>
     (\<forall>c \<in> set (candidate_paths H). isl (dlopen H (Some c)))
     \<and> aegis_load_libaegis H =
         (Inl (OSError ''Could not load libaegis''), map (Dlopen \<circ> Some) (candidate_paths H))"
proof (cases "find (\<lambda>c. \<not> isl (dlopen H (Some c))) (candidate_paths H)")
  case None
  then have "\<forall>c \<in> set (candidate_paths H). isl (dlopen H (Some c))"
    by (simp add: find_None_iff)
  with None show ?thesis by (simp add: aegis_load_libaegis_def try_candidates_find)
next
  case (Some c)
  then have "\<not> isl (dlopen H (Some c))" by (auto simp: find_Some_iff)
  with Some show ?thesis by (simp add: aegis_load_libaegis_def try_candidates_find)
qed

lemma pyaegis_load_libaegis_success:
  "\<forall>l. fst (pyaegis_load_libaegis H) = Inr l \<longleftrightarrow>
     path_exists H (path_join H (path_join H (pkg_dir H) ''build'') (pyaegis_platform_lib_name H))
     \<and> dlopen H (Some (path_join H (path_join H (pkg_dir H) ''build'') (pyaegis_platform_lib_name H))) = Inr l"
  by (auto simp: pyaegis_load_libaegis_def Let_def split: sum.splits)

lemma pyaegis_load_libaegis_failure:
  "isl (fst (pyaegis_load_libaegis H)) \<longrightarrow> (\<exists>m. fst (pyaegis_load_libaegis H) = Inl (OSError m))"
  by (auto simp: pyaegis_load_libaegis_def Let_def split: sum.splits)

lemma pyaegis_load_libaegis_attempts:
  "set (snd (pyaegis_load_libaegis H))
     \<subseteq> {Dlopen (Some (path_join H (path_join H (pkg_dir H) ''build'') (pyaegis_platform_lib_name H)))}"
  by (auto simp: pyaegis_load_libaegis_def Let_def split: sum.splits)

lemma load_libs_failure: "fst loaded = Inl e \<Longrightarrow> load_libs H loaded = (Inl e, snd loaded)"
  by (cases loaded) (simp add: load_libs_def)

lemma aegis_import_load_failure:
  "\<forall>e. fst (aegis_load_libaegis H) = Inl e \<longrightarrow> aegis_import H = (Inl e, snd (aegis_load_libaegis H))"
  by (simp add: aegis_import_def load_libs_failure)

lemma pyaegis_import_load_failure:
  "\<forall>e. cdef_error H = None \<and> fst (pyaegis_load_libaegis H) = Inl e
       \<longrightarrow> pyaegis_import H = (Inl e, snd (pyaegis_load_libaegis H))"
  by (simp add: pyaegis_import_def load_libs_failure)

lemma alloc_aligned_no_dlopen: "\<forall>p. Dlopen p \<notin> set (snd (alloc_aligned H M sz alignment))"
  by (simp add: alloc_aligned_events)

lemma candidate_paths_order:
  "candidate_paths H =
     (case environ H ''AEGIS_LIB_PATH'' of None \<Rightarrow> [] | Some p \<Rightarrow> if p = [] then [] else [p])
     @ (case environ H ''AEGIS_LIB_DIR'' of
          None \<Rightarrow> []
        | Some d \<Rightarrow> if d = [] then [] else [path_join H d (aegis_platform_lib_name H)])
     @ filter (path_exists H)
         [path_join H (repo_root H) ''build-shared-clang/libaegis.so'',
          path_join H (repo_root H) ''build-shared/libaegis.so'',
          path_join H (repo_root H) ''build/libaegis.so'',
          path_join H (repo_root H) ''zig-out/lib/libaegis.so'']
     @ [aegis_platform_lib_name H]"
  by (simp add: candidate_paths_def local_builds_def split: option.splits)

text \<open>
  Claim C8, as amended. In \<open>aegis._loader\<close> the candidates are, in this order: the
  value of \<open>AEGIS_LIB_PATH\<close> when it is set and not empty; \<open>AEGIS_LIB_DIR\<close> joined with
  the platform library name when it is set and not empty; the local build paths that
  exist, in the listed order; the bare platform library name. \<open>_load_libaegis\<close> calls
  \<open>dlopen\<close> on them in that order up to the first that loads and returns that library;
  it raises \<open>OSError\<close> only when every candidate has been tried and has failed.
  In \<open>pyaegis._loader\<close> the only candidate is the bundled
  \<open>pkg_dir/build/<platform library name>\<close>: it is returned when it exists and loads,
  and \<open>OSError\<close> is raised otherwise. In both modules the \<open>OSError\<close> ends the import,
  and \<open>alloc_aligned\<close> loads no library.
\<close>

theorem load_libaegis_candidates:
  "candidate_paths H =
     (case environ H ''AEGIS_LIB_PATH'' of None \<Rightarrow> [] | Some p \<Rightarrow> if p = [] then [] else [p])
     @ (case environ H ''AEGIS_LIB_DIR'' of
          None \<Rightarrow> []
        | Some d \<Rightarrow> if d = [] then [] else [path_join H d (aegis_platform_lib_name H)])
     @ filter (path_exists H)
         [path_join H (repo_root H) ''build-shared-clang/libaegis.so'',
          path_join H (repo_root H) ''build-shared/libaegis.so'',
          path_join H (repo_root H) ''build/libaegis.so'',
          path_join H (repo_root H) ''zig-out/lib/libaegis.so'']
     @ [aegis_platform_lib_name H]
   \<and> fst (aegis_load_libaegis H) =
       (case find (\<lambda>c. \<not> isl (dlopen H (Some c))) (candidate_paths H) of
          None \<Rightarrow> Inl (OSError ''Could not load libaegis'')
        | Some c \<Rightarrow> dlopen H (Some c))
   \<and> snd (aegis_load_libaegis H) =
       map (Dlopen \<circ> Some)
         (takeWhile (\<lambda>c. isl (dlopen H (Some c))) (candidate_paths H)
          @ (case find (\<lambda>c. \<not> isl (dlopen H (Some c))) (candidate_paths H) of
               None \<Rightarrow> [] | Some c \<Rightarrow> [c]))
   \<and> (isl (fst (aegis_load_libaegis H)) \<longrightarrow>
         (\<forall>c \<in> set (candidate_paths H). isl (dlopen H (Some c)))
         \<and> aegis_load_libaegis H =
             (Inl (OSError ''Could not load libaegis''), map (Dlopen \<circ> Some) (candidate_paths H)))
   \<and> (\<forall>l. fst (pyaegis_load_libaegis H) = Inr l \<longleftrightarrow>
         path_exists H (path_join H (path_join H (pkg_dir H) ''build'') (pyaegis_platform_lib_name H))
         \<and> dlopen H (Some (path_join H (path_join H (pkg_dir H) ''build'') (pyaegis_platform_lib_name H))) = Inr l)
   \<and> (isl (fst (pyaegis_load_libaegis H)) \<longrightarrow> (\<exists>m. fst (pyaegis_load_libaegis H) = Inl (OSError m)))
   \<and> set (snd (pyaegis_load_libaegis H))
       \<subseteq> {Dlopen (Some (path_join H (path_join H (pkg_dir H) ''build'') (pyaegis_platform_lib_name H)))}
   \<and> (\<forall>e. fst (aegis_load_libaegis H) = Inl e \<longrightarrow> aegis_import H = (Inl e, snd (aegis_load_libaegis H)))
   \<and> (\<forall>e. cdef_error H = None \<and> fst (pyaegis_load_libaegis H) = Inl e
         \<longrightarrow> pyaegis_import H = (Inl e, snd (pyaegis_load_libaegis H)))
   \<and> (\<forall>p. Dlopen p \<notin> set (snd (alloc_aligned H M sz alignment)))"
  by (intro conjI, rule candidate_paths_order, rule aegis_load_libaegis_result,
      rule aegis_load_libaegis_attempts, rule aegis_load_libaegis_failure,
      rule pyaegis_load_libaegis_success, rule pyaegis_load_libaegis_failure,
      rule pyaegis_load_libaegis_attempts, rule aegis_import_load_failure,
      rule pyaegis_import_load_failure, rule alloc_aligned_no_dlopen)


lemma example_host_candidates:
  "candidate_paths example_host = [''/opt/aegis/libaegis.so'', ''/repo/build/libaegis.so'', ''libaegis.so'']"
  by (simp add: candidate_paths_def local_builds_def aegis_platform_lib_name_def startswith_def
      example_host_def)

lemma empty_path_host_candidates:
  "candidate_paths empty_path_host = [''/repo/build/libaegis.so'', ''libaegis.so'']"
  by (simp add: candidate_paths_def local_builds_def aegis_platform_lib_name_def startswith_def
      empty_path_host_def example_host_def)

lemma empty_path_host_load:
  "aegis_load_libaegis empty_path_host =
     (Inl (OSError ''Could not load libaegis''),
      [Dlopen (Some ''/repo/build/libaegis.so''), Dlopen (Some ''libaegis.so'')])"
  by (simp add: aegis_load_libaegis_def empty_path_host_candidates)
     (simp add: empty_path_host_def example_host_def)

text \<open>
  On the example host the first candidate fails and the second, the local build, is
  returned; on the host where nothing loads every candidate is tried and the import
  ends with \<open>OSError\<close>.
\<close>

theorem load_libaegis_candidates_witness:
  "candidate_paths example_host = [''/opt/aegis/libaegis.so'', ''/repo/build/libaegis.so'', ''libaegis.so'']
   \<and> fst (aegis_load_libaegis example_host) = Inr (Library ''local build'')
   \<and> snd (aegis_load_libaegis example_host) =
       [Dlopen (Some ''/opt/aegis/libaegis.so''), Dlopen (Some ''/repo/build/libaegis.so'')]
   \<and> isl (fst (aegis_load_libaegis empty_path_host))
   \<and> aegis_import empty_path_host =
       (Inl (OSError ''Could not load libaegis''),
        [Dlopen (Some ''/repo/build/libaegis.so''), Dlopen (Some ''libaegis.so'')])"
proof -
  note ex = load_libaegis_candidates [of example_host undefined 0 0]
  note em = load_libaegis_candidates [of empty_path_host undefined 0 0]
  have d1: "dlopen example_host (Some ''/opt/aegis/libaegis.so'') = Inl (OSError ''cannot open shared object file'')"
    by (simp add: example_host_def)
  have d2: "dlopen example_host (Some ''/repo/build/libaegis.so'') = Inr (Library ''local build'')"
    by (simp add: example_host_def)
  from ex have "fst (aegis_load_libaegis example_host) =
       (case find (\<lambda>c. \<not> isl (dlopen example_host (Some c))) (candidate_paths example_host) of
          None \<Rightarrow> Inl (OSError ''Could not load libaegis'')
        | Some c \<Rightarrow> dlopen example_host (Some c))"
    by (elim conjE)
  then have r: "fst (aegis_load_libaegis example_host) = Inr (Library ''local build'')"
    by (simp add: example_host_candidates d1 d2)
  from ex have "snd (aegis_load_libaegis example_host) =
       map (Dlopen \<circ> Some)
         (takeWhile (\<lambda>c. isl (dlopen example_host (Some c))) (candidate_paths example_host)
          @ (case find (\<lambda>c. \<not> isl (dlopen example_host (Some c))) (candidate_paths example_host) of
               None \<Rightarrow> [] | Some c \<Rightarrow> [c]))"
    by (elim conjE)
  then have t: "snd (aegis_load_libaegis example_host) =
       [Dlopen (Some ''/opt/aegis/libaegis.so''), Dlopen (Some ''/repo/build/libaegis.so'')]"
    by (simp add: example_host_candidates d1 d2)
  have f: "isl (fst (aegis_load_libaegis empty_path_host))"
    by (simp add: empty_path_host_load)
  from em have "\<forall>e. fst (aegis_load_libaegis empty_path_host) = Inl e
      \<longrightarrow> aegis_import empty_path_host = (Inl e, snd (aegis_load_libaegis empty_path_host))"
    by (elim conjE)
  then have i: "aegis_import empty_path_host =
       (Inl (OSError ''Could not load libaegis''),
        [Dlopen (Some ''/repo/build/libaegis.so''), Dlopen (Some ''libaegis.so'')])"
    by (simp add: empty_path_host_load)
  from r t f i show ?thesis by (simp add: example_host_candidates)
qed

text \<open>
  Claim C8 as stated fails twice. With \<open>AEGIS_LIB_PATH\<close> set to the empty string the
  variable is set, but \<open>aegis._loader\<close> does not try its value: the candidates are not
  the claimed ones. And \<open>pyaegis._loader\<close> raises \<open>OSError\<close> without trying anything
  when the bundled library is missing, although \<open>AEGIS_LIB_PATH\<close> names a library that
  loads, which the claimed loader would return.
\<close>

theorem load_libaegis_claimed_order_counterexample:
  "environ empty_path_host ''AEGIS_LIB_PATH'' = Some []
   \<and> candidate_paths empty_path_host \<noteq> claimed_candidate_paths empty_path_host
   \<and> claimed_candidate_paths empty_path_host = [[], ''/repo/build/libaegis.so'', ''libaegis.so'']
   \<and> candidate_paths empty_path_host = [''/repo/build/libaegis.so'', ''libaegis.so'']
   \<and> aegis_load_libaegis empty_path_host =
       (Inl (OSError ''Could not load libaegis''),
        [Dlopen (Some ''/repo/build/libaegis.so''), Dlopen (Some ''libaegis.so'')])
   \<and> environ unbundled_host ''AEGIS_LIB_PATH'' = Some ''/opt/libaegis.so''
   \<and> dlopen unbundled_host (Some ''/opt/libaegis.so'') = Inr (Library ''override'')
   \<and> claimed_load_libaegis unbundled_host = Inr (Library ''override'')
   \<and> pyaegis_load_libaegis unbundled_host = (Inl (OSError ''Could not find libaegis''), [])"
proof (intro conjI)
  show "environ empty_path_host ''AEGIS_LIB_PATH'' = Some []"
    by (simp add: empty_path_host_def)
  show "candidate_paths empty_path_host \<noteq> claimed_candidate_paths empty_path_host"
    by (simp add: empty_path_host_candidates)
       (simp add: claimed_candidate_paths_def empty_path_host_def)
  show "claimed_load_libaegis unbundled_host = Inr (Library ''override'')"
    by (simp add: claimed_load_libaegis_def claimed_candidate_paths_def unbundled_host_def)
  show "claimed_candidate_paths empty_path_host = [[], ''/repo/build/libaegis.so'', ''libaegis.so'']"
    by (simp add: claimed_candidate_paths_def local_builds_def aegis_platform_lib_name_def
        startswith_def empty_path_host_def example_host_def)
  show "candidate_paths empty_path_host = [''/repo/build/libaegis.so'', ''libaegis.so'']"
    by (rule empty_path_host_candidates)
  show "aegis_load_libaegis empty_path_host =
       (Inl (OSError ''Could not load libaegis''),
        [Dlopen (Some ''/repo/build/libaegis.so''), Dlopen (Some ''libaegis.so'')])"
    by (rule empty_path_host_load)
  show "environ unbundled_host ''AEGIS_LIB_PATH'' = Some ''/opt/libaegis.so''"
    by (simp add: unbundled_host_def)
  show "dlopen unbundled_host (Some ''/opt/libaegis.so'') = Inr (Library ''override'')"
    by (simp add: unbundled_host_def)
  show "pyaegis_load_libaegis unbundled_host = (Inl (OSError ''Could not find libaegis''), [])"
    by (simp add: pyaegis_load_libaegis_def pyaegis_platform_lib_name_def unbundled_host_def
        example_host_def Let_def)
qed

end
